theory Spec2Isabelle
  imports Main
begin

section \<open>The run command of the localization CLI\<close>

text \<open>
  This theory embeds \<^verbatim>\<open>packages/cli/src/cli/cmd/run/index.ts\<close>: the sound notifier
  \<^verbatim>\<open>playSound\<close> and the \<^verbatim>\<open>action\<close> handler of the \<^verbatim>\<open>run\<close> command, which validates
  the flags, drives setup, plan, execute and the optional watch phase, and wraps the
  whole sequence in one \<^verbatim>\<open>try/catch\<close>.
\<close>

subsection \<open>JavaScript values and strings\<close>

text \<open>
  The raw argument object handed to \<^verbatim>\<open>action\<close> by the command-line parser is a
  JavaScript object; its properties are JavaScript values, of which the handler only
  ever reads the truthiness (\<^verbatim>\<open>if (args.sound)\<close>).
\<close>

datatype jsval = JUndefined | JNull | JBool bool | JNum int | JStr string

fun truthy :: "jsval \<Rightarrow> bool" where
  "truthy JUndefined = False"
| "truthy JNull = False"
| "truthy (JBool b) = b"
| "truthy (JNum n) = (n \<noteq> 0)"
| "truthy (JStr s) = (s \<noteq> [])"

type_synonym args = "(string \<times> jsval) list"

text \<open>Property access \<^verbatim>\<open>o.k\<close>: a missing property reads as \<^verbatim>\<open>undefined\<close>.\<close>

definition property :: "args \<Rightarrow> string \<Rightarrow> jsval" where
  "property obj k = (case map_of obj k of None \<Rightarrow> JUndefined | Some v \<Rightarrow> v)"

text \<open>
  Array indexing \<^verbatim>\<open>xs[i]\<close> never raises in JavaScript: out of range it yields
  \<^verbatim>\<open>undefined\<close>, and a template literal renders that as the text \<^verbatim>\<open>undefined\<close>.
\<close>

definition js_index :: "string list \<Rightarrow> nat \<Rightarrow> string option" where
  "js_index xs i = (if i < length xs then Some (xs ! i) else None)"

definition template_str :: "string option \<Rightarrow> string" where
  "template_str v = (case v of None \<Rightarrow> ''undefined'' | Some s \<Rightarrow> s)"

text \<open>\<^verbatim>\<open>Array.prototype.join\<close>.\<close>

fun js_join :: "string \<Rightarrow> string list \<Rightarrow> string" where
  "js_join sep [] = []"
| "js_join sep [x] = x"
| "js_join sep (x # y # ys) = x @ sep @ js_join sep (y # ys)"

definition dq :: string where "dq = [CHR 0x22]"
definition sq :: string where "sq = [CHR 0x27]"

subsection \<open>The sound notifier\<close>

datatype sound_type = success | failure

fun type_name :: "sound_type \<Rightarrow> string" where
  "type_name success = ''success''"
| "type_name failure = ''failure''"

text \<open>
  What \<^verbatim>\<open>child_process.exec\<close> does with a command. It throws synchronously when the
  child cannot be spawned at all (\<open>SpawnError\<close>); otherwise it returns, and its completion
  callback fires after some milliseconds, with or without an error (\<open>Completes t err\<close>),
  or never fires (\<open>NeverCompletes\<close>).
\<close>

datatype exec_result = SpawnError | Completes nat bool | NeverCompletes

text \<open>
  What the notifier reads from its host: \<^verbatim>\<open>os.platform()\<close>, the module directory
  \<^verbatim>\<open>__dirname\<close>, \<^verbatim>\<open>path.join\<close>, and the behaviour of \<^verbatim>\<open>child_process.exec\<close> on a
  command.
\<close>

record host =
  platform :: string
  dirname :: string
  path_join :: "string \<Rightarrow> string \<Rightarrow> string"
  exec :: "string \<Rightarrow> exec_result"

definition soundFiles :: "host \<Rightarrow> sound_type \<Rightarrow> string list" where
  "soundFiles h ty =
     (let assetDir = path_join h (dirname h) ''../assets''
      in [path_join h assetDir (type_name ty @ ''.mp3'')])"

definition linux_player :: "string \<Rightarrow> string" where
  "linux_player file =
     ''mpg123 -q '' @ dq @ file @ dq @ '' 2>/dev/null || aplay '' @ dq @ file @ dq @ '' 2>/dev/null''"

definition darwin_player :: "string \<Rightarrow> string" where
  "darwin_player file = ''afplay '' @ dq @ file @ dq"

definition other_player :: "string \<Rightarrow> string" where
  "other_player file =
     ''aplay '' @ dq @ file @ dq @ '' 2>/dev/null || afplay '' @ dq @ file @ dq @ '' 2>/dev/null''"

text \<open>
  The Windows command, split at its two interpolations: the argument of the managed
  sound player is \<^verbatim>\<open>soundFiles[1]\<close>, the argument of the fallback is
  \<^verbatim>\<open>soundFiles[0]\<close>.
\<close>

definition win32_primary :: "string list \<Rightarrow> string option" where
  "win32_primary files = js_index files 1"

definition win32_fallback :: "string list \<Rightarrow> string option" where
  "win32_fallback files = js_index files 0"

definition win32_command :: "string list \<Rightarrow> string" where
  "win32_command files =
     ''powershell -c '' @ dq @ ''try { (New-Object Media.SoundPlayer '' @ sq
       @ template_str (win32_primary files) @ sq
       @ '').PlaySync() } catch { Start-Process -FilePath '' @ sq
       @ template_str (win32_fallback files) @ sq
       @ '' -WindowStyle Hidden -Wait }'' @ dq"

definition command :: "host \<Rightarrow> sound_type \<Rightarrow> string" where
  "command h ty =
     (let files = soundFiles h ty in
      if platform h = ''linux'' then js_join '' || '' (map linux_player files)
      else if platform h = ''darwin'' then js_join '' || '' (map darwin_player files)
      else if platform h = ''win32'' then win32_command files
      else js_join '' || '' (map other_player files))"

text \<open>
  The promise returned by \<^verbatim>\<open>playSound\<close>. Its executor first calls \<^verbatim>\<open>exec\<close> and then
  \<^verbatim>\<open>setTimeout\<close>. When \<^verbatim>\<open>exec\<close> returns, two callbacks are registered, each of which
  calls \<^verbatim>\<open>resolve\<close>: the completion callback of \<^verbatim>\<open>exec\<close>, which ignores the error it is
  handed, and a timer of 3000 ms. When \<^verbatim>\<open>exec\<close> throws, the throw leaves the executor
  before the timer is armed, and a throw out of an executor rejects the promise at once.
  Time is the event loop's clock in milliseconds, counted from the call; callbacks run in
  the order of their due times, and the first \<^verbatim>\<open>resolve\<close> settles the promise, later
  ones change nothing.
\<close>

datatype promise = Pending | Fulfilled nat | Rejected nat

fun resolve :: "nat \<Rightarrow> promise \<Rightarrow> promise" where
  "resolve t Pending = Fulfilled t"
| "resolve t p = p"

text \<open>
  The due times of the callbacks the executor has registered when it returns, in the
  order of registration; \<open>None\<close> when it does not return because \<^verbatim>\<open>exec\<close> threw.
\<close>

definition scheduled :: "exec_result \<Rightarrow> nat list option" where
  "scheduled r =
     (case r of
        SpawnError \<Rightarrow> None
      | Completes t err \<Rightarrow> Some [t, 3000]
      | NeverCompletes \<Rightarrow> Some [3000])"

definition playSound :: "host \<Rightarrow> sound_type \<Rightarrow> promise" where
  "playSound h ty =
     (case scheduled (exec h (command h ty)) of
        None \<Rightarrow> Rejected 0
      | Some ts \<Rightarrow> fold resolve (sort ts) Pending)"

subsection \<open>The run context and the collaborators of the handler\<close>

text \<open>
  Modelled from the spec: the types of \<^verbatim>\<open>./_types\<close> (\<^verbatim>\<open>CmdRunContext\<close> and the validated
  flags) are not among the sources. The context has the five fields the handler
  initialises; of the validated flags the handler reads \<^verbatim>\<open>debug\<close>, \<^verbatim>\<open>sound\<close> and
  \<^verbatim>\<open>watch\<close>, and the remaining validated options are carried along unread. The project
  configuration, the localizer handle, tasks and results are opaque to the handler.
\<close>

type_synonym config = string
type_synonym localizer = string
type_synonym task = string
type_synonym results = "(string \<times> string) list"

record flags =
  debug :: bool
  watch :: bool
  sound :: bool
  options :: args

record ctx =
  flags :: flags
  config :: "config option"
  results :: results
  tasks :: "task list"
  localizer :: "localizer option"

text \<open>An awaited call fulfils with a value, rejects, or never settles.\<close>

datatype 'a outcome = Returns 'a | Throws | Hangs

text \<open>
  The imported collaborators are parameters of the model; none of their modules is
  among the sources.
  \<^item> \<open>ext_parse\<close> is \<^verbatim>\<open>flagsSchema.parse\<close>; \<open>None\<close> stands for the validation error it
    throws.
  \<^item> \<open>ext_confirmed\<close> says whether the confirmation awaited by \<^verbatim>\<open>pauseIfDebug\<close> ever
    arrives.
  \<^item> \<open>ext_setup\<close>, \<open>ext_plan\<close>, \<open>ext_execute\<close> and \<open>ext_watch\<close> are the four phases, each
    handed the context; Modelled from the spec: setup populates \<^verbatim>\<open>config\<close> and
    \<^verbatim>\<open>localizer\<close>, plan populates \<^verbatim>\<open>tasks\<close>, execute populates \<^verbatim>\<open>results\<close>, and no
    phase changes \<^verbatim>\<open>flags\<close>.
  \<^item> \<open>ext_determineAuthId\<close> is \<^verbatim>\<open>determineAuthId\<close>, of result type
    \<^verbatim>\<open>string | null\<close>.
  \<^item> \<open>ext_host\<close> is the host of the sound notifier.
\<close>

record env =
  ext_parse :: "args \<Rightarrow> flags option"
  ext_confirmed :: bool
  ext_setup :: "ctx \<Rightarrow> (config \<times> localizer) outcome"
  ext_determineAuthId :: "ctx \<Rightarrow> string option outcome"
  ext_plan :: "ctx \<Rightarrow> task list outcome"
  ext_execute :: "ctx \<Rightarrow> results outcome"
  ext_watch :: "ctx \<Rightarrow> unit outcome"
  ext_host :: host

subsection \<open>Observable events\<close>

datatype phase = Setup | Plan | Execute | Watch

datatype payload = Snapshot "config option" flags | EmptyPayload

datatype event =
    ConsoleLog args
  | PauseIfDebug bool
  | RenderClear
  | RenderSpacer
  | RenderBanner
  | RenderHero
  | RenderSummary results
  | PhaseStart phase
  | PhaseEnd phase
  | DetermineAuthId
  | TrackEvent "string option" string payload
  | SoundStart sound_type
  | SoundSettled sound_type nat
  | SoundRejected sound_type
  | ExitGracefully
  | ProcessExit nat

subsection \<open>Statements\<close>

text \<open>
  The state of the handler: the events so far, the variable \<^verbatim>\<open>authId\<close> declared before
  the \<^verbatim>\<open>try\<close>, and the context. A statement either completes, throws, never completes,
  or ends the process with a status.
\<close>

record st =
  trace :: "event list"
  authId :: "string option"
  cx :: ctx

datatype signal = Next | Thrown | Stuck | Exit nat

type_synonym stmt = "st \<Rightarrow> signal \<times> st"

definition emit :: "event \<Rightarrow> st \<Rightarrow> st" where
  "emit e s = s\<lparr>trace := trace s @ [e]\<rparr>"

fun block :: "stmt list \<Rightarrow> stmt" where
  "block [] s = (Next, s)"
| "block (c # cs) s =
     (case c s of
        (Next, s') \<Rightarrow> block cs s'
      | (Thrown, s') \<Rightarrow> (Thrown, s')
      | (Stuck, s') \<Rightarrow> (Stuck, s')
      | (Exit n, s') \<Rightarrow> (Exit n, s'))"

text \<open>
  Modelled from the spec: the helpers of \<^verbatim>\<open>../../utils/ui\<close> are not among the sources.
  The rendering helpers are pure side effects without a failure path; \<^verbatim>\<open>pauseIfDebug\<close>
  proceeds at once unless \<^verbatim>\<open>debug\<close> is set, and then waits, without a timeout, for the
  confirmation.
\<close>

definition render :: "event \<Rightarrow> stmt" where
  "render e s = (Next, emit e s)"

definition renderSummary :: stmt where
  "renderSummary s = (Next, emit (RenderSummary (results (cx s))) s)"

definition pauseIfDebug :: "env \<Rightarrow> stmt" where
  "pauseIfDebug E s =
     (let d = debug (flags (cx s)); s' = emit (PauseIfDebug d) s
      in if d \<and> \<not> ext_confirmed E then (Stuck, s') else (Next, s'))"

text \<open>
  Modelled from the spec: \<^verbatim>\<open>trackEvent\<close> of \<^verbatim>\<open>../../utils/observability\<close> is fire and
  forget and never throws into the handler, which does not await it;
  \<^verbatim>\<open>exitGracefully\<close> of \<^verbatim>\<open>../../utils/exit-gracefully\<close> ends the process with status 0.
\<close>

definition trackEvent :: "string option \<Rightarrow> string \<Rightarrow> payload \<Rightarrow> st \<Rightarrow> st" where
  "trackEvent aid name p s = emit (TrackEvent aid name p) s"

definition snapshot :: "st \<Rightarrow> payload" where
  "snapshot s = Snapshot (config (cx s)) (flags (cx s))"

definition trackStart :: stmt where
  "trackStart s = (Next, trackEvent (authId s) ''cmd.run.start'' (snapshot s) s)"

definition trackSuccess :: stmt where
  "trackSuccess s = (Next, trackEvent (authId s) ''cmd.run.success'' (snapshot s) s)"

definition exitGracefully :: stmt where
  "exitGracefully s = (Exit 0, emit ExitGracefully s)"

text \<open>
  The awaited phases and \<^verbatim>\<open>authId = await determineAuthId(ctx)\<close>. The statements
  \<^verbatim>\<open>await setup(ctx)\<close> and \<^verbatim>\<open>await watch(ctx)\<close> are named \<open>setup_phase\<close> and
  \<open>watch_phase\<close>.
\<close>

definition await :: "phase \<Rightarrow> 'a outcome \<Rightarrow> ('a \<Rightarrow> st \<Rightarrow> st) \<Rightarrow> stmt" where
  "await p r store s =
     (let s' = emit (PhaseStart p) s in
      case r of
        Returns x \<Rightarrow> (Next, emit (PhaseEnd p) (store x s'))
      | Throws \<Rightarrow> (Thrown, s')
      | Hangs \<Rightarrow> (Stuck, s'))"

definition setup_phase :: "env \<Rightarrow> stmt" where
  "setup_phase E s = await Setup (ext_setup E (cx s))
     (\<lambda>(c, l) s. s\<lparr>cx := (cx s)\<lparr>config := Some c, localizer := Some l\<rparr>\<rparr>) s"

definition plan :: "env \<Rightarrow> stmt" where
  "plan E s = await Plan (ext_plan E (cx s))
     (\<lambda>ts s. s\<lparr>cx := (cx s)\<lparr>tasks := ts\<rparr>\<rparr>) s"

definition execute :: "env \<Rightarrow> stmt" where
  "execute E s = await Execute (ext_execute E (cx s))
     (\<lambda>rs s. s\<lparr>cx := (cx s)\<lparr>results := rs\<rparr>\<rparr>) s"

definition watch_phase :: "env \<Rightarrow> stmt" where
  "watch_phase E s = await Watch (ext_watch E (cx s)) (\<lambda>_ s. s) s"

definition determineAuthId :: "env \<Rightarrow> stmt" where
  "determineAuthId E s =
     (let s' = emit DetermineAuthId s in
      case ext_determineAuthId E (cx s) of
        Returns a \<Rightarrow> (Next, s'\<lparr>authId := a\<rparr>)
      | Throws \<Rightarrow> (Thrown, s')
      | Hangs \<Rightarrow> (Stuck, s'))"

text \<open>
  \<^verbatim>\<open>await playSound(type)\<close>: the handler goes on when the promise is fulfilled, and the
  \<^verbatim>\<open>await\<close> throws when the promise is rejected.
\<close>

definition await_playSound :: "env \<Rightarrow> sound_type \<Rightarrow> stmt" where
  "await_playSound E ty s =
     (let s' = emit (SoundStart ty) s in
      case playSound (ext_host E) ty of
        Fulfilled t \<Rightarrow> (Next, emit (SoundSettled ty t) s')
      | Rejected t \<Rightarrow> (Thrown, emit (SoundRejected ty) s')
      | Pending \<Rightarrow> (Stuck, s'))"

definition if_flag :: "(st \<Rightarrow> bool) \<Rightarrow> stmt \<Rightarrow> stmt" where
  "if_flag c body s = (if c s then body s else (Next, s))"

subsection \<open>The handler\<close>

text \<open>Lines 125 to 166: the body of the \<^verbatim>\<open>try\<close> after the context is built.\<close>

definition try_statements :: "env \<Rightarrow> stmt list" where
  "try_statements E =
     [pauseIfDebug E,
      render RenderClear,
      render RenderSpacer,
      render RenderBanner,
      render RenderHero,
      render RenderSpacer,
      setup_phase E,
      determineAuthId E,
      trackStart,
      render RenderSpacer,
      plan E,
      render RenderSpacer,
      execute E,
      render RenderSpacer,
      renderSummary,
      render RenderSpacer,
      if_flag (\<lambda>s. sound (flags (cx s))) (await_playSound E success),
      if_flag (\<lambda>s. watch (flags (cx s))) (watch_phase E),
      trackSuccess,
      exitGracefully]"

definition new_ctx :: "flags \<Rightarrow> ctx" where
  "new_ctx fl = \<lparr>flags = fl, config = None, results = [], tasks = [], localizer = None\<rparr>"

text \<open>
  The \<^verbatim>\<open>try\<close> block. When \<^verbatim>\<open>flagsSchema.parse\<close> throws, no context exists and no
  statement of the block has run.
\<close>

definition try_block :: "env \<Rightarrow> args \<Rightarrow> event list \<Rightarrow> signal \<times> event list \<times> string option" where
  "try_block E a tr =
     (case ext_parse E a of
        None \<Rightarrow> (Thrown, tr, None)
      | Some fl \<Rightarrow>
          (case block (try_statements E) \<lparr>trace = tr, authId = None, cx = new_ctx fl\<rparr> of
             (r, s) \<Rightarrow> (r, trace s, authId s)))"

text \<open>\<^verbatim>\<open>authId || "unknown"\<close>: \<^verbatim>\<open>null\<close> and the empty string are falsy.\<close>

definition or_unknown :: "string option \<Rightarrow> string" where
  "or_unknown aid = (case aid of None \<Rightarrow> ''unknown'' | Some v \<Rightarrow> if v = [] then ''unknown'' else v)"

text \<open>
  The \<^verbatim>\<open>catch\<close> block, lines 168 to 172. It reads \<^verbatim>\<open>args.sound\<close>, the raw argument, and
  the variable \<^verbatim>\<open>authId\<close>. A rejected \<^verbatim>\<open>playSound('failure')\<close> throws out of the
  \<^verbatim>\<open>catch\<close> block, so that \<^verbatim>\<open>process.exit(1)\<close> is not reached and the promise of the
  handler rejects (\<open>Thrown\<close>).
\<close>

definition catch_block :: "env \<Rightarrow> args \<Rightarrow> event list \<Rightarrow> string option \<Rightarrow> signal \<times> event list" where
  "catch_block E a tr aid =
     (let tr1 = tr @ [TrackEvent (Some (or_unknown aid)) ''cmd.run.error'' EmptyPayload] in
      if truthy (property a ''sound'') then
        (case playSound (ext_host E) failure of
           Fulfilled t \<Rightarrow>
             (Exit 1, tr1 @ [SoundStart failure, SoundSettled failure t, ProcessExit 1])
         | Rejected t \<Rightarrow> (Thrown, tr1 @ [SoundStart failure, SoundRejected failure])
         | Pending \<Rightarrow> (Stuck, tr1 @ [SoundStart failure]))
      else (Exit 1, tr1 @ [ProcessExit 1]))"

text \<open>
  The handler: the result is how it ends (\<open>Exit n\<close> when it ends the process with status
  \<open>n\<close>, \<open>Stuck\<close> when it never gets there, \<open>Thrown\<close> when its promise rejects) and the
  events it produced.
\<close>

definition action :: "env \<Rightarrow> args \<Rightarrow> signal \<times> event list" where
  "action E a =
     (case try_block E a [ConsoleLog a] of
        (Thrown, tr, aid) \<Rightarrow> catch_block E a tr aid
      | (r, tr, aid) \<Rightarrow> (r, tr))"

definition events :: "env \<Rightarrow> args \<Rightarrow> event list" where
  "events E a = snd (action E a)"

definition ending :: "env \<Rightarrow> args \<Rightarrow> signal" where
  "ending E a = fst (action E a)"

subsection \<open>What the collaborators do in a run\<close>

text \<open>
  The outcome the collaborators give to each awaited call of a run, read off the
  environment alone: each call is made on the context that the earlier calls leave,
  and there is no outcome (\<open>None\<close>) when an earlier call did not return. Setup is
  reached when the flags are valid and the debug pause, if any, is confirmed.
  \<open>watch_outcome\<close> is what the watch phase does on the context that execute leaves;
  whether the handler calls it is a matter of the handler.
\<close>

definition ctx_at_setup :: "env \<Rightarrow> args \<Rightarrow> ctx option" where
  "ctx_at_setup E a =
     (case ext_parse E a of
        None \<Rightarrow> None
      | Some fl \<Rightarrow> if debug fl \<and> \<not> ext_confirmed E then None else Some (new_ctx fl))"

definition setup_outcome :: "env \<Rightarrow> args \<Rightarrow> (config \<times> localizer) outcome option" where
  "setup_outcome E a = map_option (ext_setup E) (ctx_at_setup E a)"

definition ctx_at_auth :: "env \<Rightarrow> args \<Rightarrow> ctx option" where
  "ctx_at_auth E a =
     (case ctx_at_setup E a of
        None \<Rightarrow> None
      | Some x \<Rightarrow>
          (case ext_setup E x of
             Returns (c, l) \<Rightarrow> Some (x\<lparr>config := Some c, localizer := Some l\<rparr>)
           | Throws \<Rightarrow> None
           | Hangs \<Rightarrow> None))"

definition auth_outcome :: "env \<Rightarrow> args \<Rightarrow> string option outcome option" where
  "auth_outcome E a = map_option (ext_determineAuthId E) (ctx_at_auth E a)"

definition ctx_at_plan :: "env \<Rightarrow> args \<Rightarrow> ctx option" where
  "ctx_at_plan E a =
     (case ctx_at_auth E a of
        None \<Rightarrow> None
      | Some x \<Rightarrow>
          (case ext_determineAuthId E x of
             Returns aid \<Rightarrow> Some x
           | Throws \<Rightarrow> None
           | Hangs \<Rightarrow> None))"

definition plan_outcome :: "env \<Rightarrow> args \<Rightarrow> task list outcome option" where
  "plan_outcome E a = map_option (ext_plan E) (ctx_at_plan E a)"

definition ctx_at_execute :: "env \<Rightarrow> args \<Rightarrow> ctx option" where
  "ctx_at_execute E a =
     (case ctx_at_plan E a of
        None \<Rightarrow> None
      | Some x \<Rightarrow>
          (case ext_plan E x of
             Returns ts \<Rightarrow> Some (x\<lparr>tasks := ts\<rparr>)
           | Throws \<Rightarrow> None
           | Hangs \<Rightarrow> None))"

definition execute_outcome :: "env \<Rightarrow> args \<Rightarrow> results outcome option" where
  "execute_outcome E a = map_option (ext_execute E) (ctx_at_execute E a)"

definition ctx_at_watch :: "env \<Rightarrow> args \<Rightarrow> ctx option" where
  "ctx_at_watch E a =
     (case ctx_at_execute E a of
        None \<Rightarrow> None
      | Some x \<Rightarrow>
          (case ext_execute E x of
             Returns rs \<Rightarrow> Some (x\<lparr>results := rs\<rparr>)
           | Throws \<Rightarrow> None
           | Hangs \<Rightarrow> None))"

definition watch_outcome :: "env \<Rightarrow> args \<Rightarrow> unit outcome option" where
  "watch_outcome E a = map_option (ext_watch E) (ctx_at_watch E a)"

fun returned :: "'a outcome option \<Rightarrow> bool" where
  "returned (Some (Returns x)) = True"
| "returned r = False"

fun threw :: "'a outcome option \<Rightarrow> bool" where
  "threw (Some Throws) = True"
| "threw r = False"

text \<open>A switch of the validated flags is set; no switch is set when validation fails.\<close>

definition flag_set :: "env \<Rightarrow> args \<Rightarrow> (flags \<Rightarrow> bool) \<Rightarrow> bool" where
  "flag_set E a sw = (case ext_parse E a of None \<Rightarrow> False | Some fl \<Rightarrow> sw fl)"

text \<open>\<^verbatim>\<open>exec\<close> throws on the command of this kind of sound, so that the promise rejects.\<close>

definition spawn_throws :: "host \<Rightarrow> sound_type \<Rightarrow> bool" where
  "spawn_throws h ty = (exec h (command h ty) = SpawnError)"

text \<open>
  The time at which the promise of the notifier settles: at once when \<^verbatim>\<open>exec\<close> throws,
  and otherwise at the due time of the playback callback or of the timer, whichever is
  earlier.
\<close>

definition settle_time :: "host \<Rightarrow> sound_type \<Rightarrow> nat" where
  "settle_time h ty =
     (case exec h (command h ty) of
        SpawnError \<Rightarrow> 0
      | Completes t err \<Rightarrow> min t 3000
      | NeverCompletes \<Rightarrow> 3000)"

text \<open>
  The success sound is requested and its promise rejects: execute has returned, the
  validated \<^verbatim>\<open>sound\<close> is set, and \<^verbatim>\<open>exec\<close> throws.
\<close>

definition success_sound_rejects :: "env \<Rightarrow> args \<Rightarrow> bool" where
  "success_sound_rejects E a =
     (returned (execute_outcome E a) \<and> flag_set E a sound
      \<and> spawn_throws (ext_host E) success)"

text \<open>
  The failure sound is requested and its promise rejects: the raw \<^verbatim>\<open>args.sound\<close> is
  truthy and \<^verbatim>\<open>exec\<close> throws.
\<close>

definition failure_sound_rejects :: "env \<Rightarrow> args \<Rightarrow> bool" where
  "failure_sound_rejects E a =
     (truthy (property a ''sound'') \<and> spawn_throws (ext_host E) failure)"

text \<open>
  An error is thrown inside the \<^verbatim>\<open>try\<close> block: validation rejects the arguments, or one
  of setup, \<^verbatim>\<open>determineAuthId\<close>, plan and execute throws, or the promise of the success
  sound rejects, or the watch phase is called and throws.
\<close>

definition watch_throws :: "env \<Rightarrow> args \<Rightarrow> bool" where
  "watch_throws E a =
     (returned (execute_outcome E a) \<and> flag_set E a watch
      \<and> \<not> success_sound_rejects E a \<and> threw (watch_outcome E a))"

definition error_raised :: "env \<Rightarrow> args \<Rightarrow> bool" where
  "error_raised E a =
     (ext_parse E a = None \<or> threw (setup_outcome E a) \<or> threw (auth_outcome E a)
      \<or> threw (plan_outcome E a) \<or> threw (execute_outcome E a)
      \<or> success_sound_rejects E a \<or> watch_throws E a)"

subsection \<open>Reading a run\<close>

text \<open>
  The outer guard caught an error: the \<^verbatim>\<open>try\<close> block of the handler ended by a throw.
\<close>

definition caught :: "env \<Rightarrow> args \<Rightarrow> bool" where
  "caught E a = (fst (try_block E a [ConsoleLog a]) = Thrown)"

text \<open>Some event satisfying \<open>P\<close> comes strictly before some event satisfying \<open>Q\<close>.\<close>

fun occurs_before :: "('e \<Rightarrow> bool) \<Rightarrow> ('e \<Rightarrow> bool) \<Rightarrow> 'e list \<Rightarrow> bool" where
  "occurs_before P Q [] = False"
| "occurs_before P Q (x # xs) = ((P x \<and> list_ex Q xs) \<or> occurs_before P Q xs)"

fun is_track :: "string \<Rightarrow> event \<Rightarrow> bool" where
  "is_track n (TrackEvent aid name p) = (name = n)"
| "is_track n e = False"



text \<open>The promise of a sound settles: it is fulfilled or rejected.\<close>

fun is_settled :: "sound_type \<Rightarrow> event \<Rightarrow> bool" where
  "is_settled ty (SoundSettled ty' t) = (ty' = ty)"
| "is_settled ty (SoundRejected ty') = (ty' = ty)"
| "is_settled ty e = False"

fun is_exit :: "event \<Rightarrow> bool" where
  "is_exit (ProcessExit n) = True"
| "is_exit e = False"

definition is_event :: "event \<Rightarrow> event \<Rightarrow> bool" where
  "is_event e e' = (e' = e)"

subsection \<open>The stages of a run\<close>

text \<open>
  The context as the phases leave it, and the events produced up to each point at which
  the handler waits for a phase. They name the shapes a run can take.
\<close>

definition after_setup :: "flags \<Rightarrow> config \<Rightarrow> localizer \<Rightarrow> ctx" where
  "after_setup fl c l = (new_ctx fl)\<lparr>config := Some c, localizer := Some l\<rparr>"

definition after_plan :: "flags \<Rightarrow> config \<Rightarrow> localizer \<Rightarrow> task list \<Rightarrow> ctx" where
  "after_plan fl c l ts = (after_setup fl c l)\<lparr>tasks := ts\<rparr>"

definition after_execute :: "flags \<Rightarrow> config \<Rightarrow> localizer \<Rightarrow> task list \<Rightarrow> results \<Rightarrow> ctx" where
  "after_execute fl c l ts rs = (after_plan fl c l ts)\<lparr>results := rs\<rparr>"

definition to_setup :: "args \<Rightarrow> flags \<Rightarrow> event list" where
  "to_setup a fl = [ConsoleLog a, PauseIfDebug (debug fl), RenderClear, RenderSpacer,
     RenderBanner, RenderHero, RenderSpacer, PhaseStart Setup]"

definition to_auth :: "args \<Rightarrow> flags \<Rightarrow> event list" where
  "to_auth a fl = to_setup a fl @ [PhaseEnd Setup, DetermineAuthId]"

definition to_plan :: "args \<Rightarrow> flags \<Rightarrow> config \<Rightarrow> string option \<Rightarrow> event list" where
  "to_plan a fl c aid = to_auth a fl @
     [TrackEvent aid ''cmd.run.start'' (Snapshot (Some c) fl), RenderSpacer, PhaseStart Plan]"

definition to_execute :: "args \<Rightarrow> flags \<Rightarrow> config \<Rightarrow> string option \<Rightarrow> event list" where
  "to_execute a fl c aid = to_plan a fl c aid @ [PhaseEnd Plan, RenderSpacer, PhaseStart Execute]"

definition to_sound :: "args \<Rightarrow> flags \<Rightarrow> config \<Rightarrow> string option \<Rightarrow> results \<Rightarrow> event list" where
  "to_sound a fl c aid rs = to_execute a fl c aid @
     [PhaseEnd Execute, RenderSpacer, RenderSummary rs, RenderSpacer]"

definition to_watch ::
  "env \<Rightarrow> args \<Rightarrow> flags \<Rightarrow> config \<Rightarrow> string option \<Rightarrow> results \<Rightarrow> event list" where
  "to_watch E a fl c aid rs = to_sound a fl c aid rs @
     (if sound fl
      then [SoundStart success, SoundSettled success (settle_time (ext_host E) success)]
      else [])"

definition success_tail :: "flags \<Rightarrow> config \<Rightarrow> string option \<Rightarrow> event list" where
  "success_tail fl c aid =
     [TrackEvent aid ''cmd.run.success'' (Snapshot (Some c) fl), ExitGracefully]"

definition error_tail :: "env \<Rightarrow> args \<Rightarrow> string option \<Rightarrow> event list" where
  "error_tail E a aid =
     TrackEvent (Some (or_unknown aid)) ''cmd.run.error'' EmptyPayload #
     (if truthy (property a ''sound'')
      then (if spawn_throws (ext_host E) failure
            then [SoundStart failure, SoundRejected failure]
            else [SoundStart failure, SoundSettled failure (settle_time (ext_host E) failure),
                  ProcessExit 1])
      else [ProcessExit 1])"

subsection \<open>Sample hosts, schemas and collaborators\<close>

text \<open>
  The sample hosts join path segments with a slash and do not normalise the result;
  nothing below depends on the text of a path.
\<close>

definition posix_join :: "string \<Rightarrow> string \<Rightarrow> string" where
  "posix_join a b = a @ ''/'' @ b"

definition linux_host :: host where
  "linux_host = \<lparr>platform = ''linux'', dirname = ''/opt/cli/build'',
     path_join = posix_join, exec = (\<lambda>c. Completes 120 False)\<rparr>"

text \<open>A Windows host on which the spawned command fails after 40 ms.\<close>

definition windows_host :: host where
  "windows_host = \<lparr>platform = ''win32'', dirname = ''C:/cli/build'',
     path_join = posix_join, exec = (\<lambda>c. Completes 40 True)\<rparr>"


text \<open>A host on which no child process can be spawned: \<^verbatim>\<open>exec\<close> throws.\<close>

definition exhausted_host :: host where
  "exhausted_host = \<lparr>platform = ''linux'', dirname = ''/opt/cli/build'',
     path_join = posix_join, exec = (\<lambda>c. SpawnError)\<rparr>"

text \<open>
  A schema that accepts the three switches when each is a boolean or absent, and
  rejects the arguments otherwise.
\<close>

definition is_switch :: "jsval \<Rightarrow> bool" where
  "is_switch v = (case v of JUndefined \<Rightarrow> True | JBool b \<Rightarrow> True | _ \<Rightarrow> False)"

definition switch_schema :: "args \<Rightarrow> flags option" where
  "switch_schema a =
     (if is_switch (property a ''debug'') \<and> is_switch (property a ''watch'')
         \<and> is_switch (property a ''sound'')
      then Some \<lparr>debug = truthy (property a ''debug''), watch = truthy (property a ''watch''),
                 sound = truthy (property a ''sound''), options = []\<rparr>
      else None)"

definition good_env :: env where
  "good_env = \<lparr>ext_parse = switch_schema, ext_confirmed = True,
     ext_setup = (\<lambda>c. Returns (''i18n.json'', ''engine'')),
     ext_determineAuthId = (\<lambda>c. Returns (Some ''user@example.com'')),
     ext_plan = (\<lambda>c. Returns [''en:fr'']),
     ext_execute = (\<lambda>c. Returns [(''en:fr'', ''ok'')]),
     ext_watch = (\<lambda>c. Returns ()),
     ext_host = linux_host\<rparr>"

definition watch_throws_env :: env where
  "watch_throws_env = good_env\<lparr>ext_watch := (\<lambda>c. Throws)\<rparr>"



definition plan_throws_env :: env where
  "plan_throws_env = good_env\<lparr>ext_plan := (\<lambda>c. Throws)\<rparr>"

definition execute_throws_env :: env where
  "execute_throws_env = good_env\<lparr>ext_execute := (\<lambda>c. Throws)\<rparr>"

text \<open>The sample collaborators on the host on which \<^verbatim>\<open>exec\<close> throws.\<close>

definition no_spawn_env :: env where
  "no_spawn_env = good_env\<lparr>ext_host := exhausted_host\<rparr>"

definition sound_watch_args :: args where
  "sound_watch_args = [(''sound'', JBool True), (''watch'', JBool True)]"

definition sample_flags :: flags where
  "sample_flags = \<lparr>debug = False, watch = True, sound = True, options = []\<rparr>"

text \<open>
  Collaborators whose schema accepts everything and leaves every switch off, and whose
  setup throws.
\<close>

definition quiet_flags :: flags where
  "quiet_flags = \<lparr>debug = False, watch = False, sound = False, options = []\<rparr>"

definition setup_throws_env :: env where
  "setup_throws_env = good_env\<lparr>ext_parse := (\<lambda>a. Some quiet_flags), ext_setup := (\<lambda>c. Throws)\<rparr>"

text \<open>Arguments the sample schema rejects, with a truthy \<^verbatim>\<open>sound\<close>.\<close>

definition bad_args :: args where
  "bad_args = [(''sound'', JStr ''yes'')]"

section \<open>Properties\<close>

subsection \<open>How the promise of the notifier settles\<close>

lemma resolve_settled: "p \<noteq> Pending \<Longrightarrow> fold resolve ts p = p"
  by (induction ts) (cases p; simp)+

lemma playSound_settles:
  "playSound h ty =
     (if spawn_throws h ty then Rejected 0 else Fulfilled (settle_time h ty))"
proof (cases "exec h (command h ty)")
  case SpawnError
  then show ?thesis
    by (simp add: playSound_def scheduled_def spawn_throws_def)
next
  case (Completes t err)
  have "sort [t, 3000] = [min t 3000, max t 3000]"
    by (simp add: min_def max_def)
  with Completes show ?thesis
    by (simp add: playSound_def scheduled_def settle_time_def spawn_throws_def resolve_settled)
next
  case NeverCompletes
  then show ?thesis
    by (simp add: playSound_def scheduled_def settle_time_def spawn_throws_def)
qed


lemma soundFiles_single: "length (soundFiles h ty) = 1"
  by (simp add: soundFiles_def Let_def)

subsection \<open>The shapes of a run\<close>

lemmas stmt_defs = pauseIfDebug_def render_def renderSummary_def trackStart_def trackSuccess_def
  exitGracefully_def await_def setup_phase_def plan_def execute_def watch_phase_def
  determineAuthId_def await_playSound_def if_flag_def emit_def trackEvent_def snapshot_def
  Let_def playSound_settles

lemmas stage_defs = after_setup_def after_plan_def after_execute_def to_setup_def to_auth_def
  to_plan_def to_execute_def to_sound_def to_watch_def success_tail_def

text \<open>
  The \<^verbatim>\<open>try\<close> block ends in one of fifteen ways, told apart by what the collaborators
  do: the schema rejects the arguments; the debug pause is never confirmed; one of
  setup, \<^verbatim>\<open>determineAuthId\<close>, plan and execute throws or never settles; the promise of
  the success sound rejects; all succeed without watch; or the watch phase throws, never
  settles or returns.
\<close>

lemma try_block_shape:
  "(ext_parse E a = None \<and> ctx_at_setup E a = None \<and>
        try_block E a [ConsoleLog a] = (Thrown, [ConsoleLog a], None))
  \<or> (\<exists>fl. ext_parse E a = Some fl \<and> debug fl \<and> \<not> ext_confirmed E \<and>
        ctx_at_setup E a = None \<and>
        try_block E a [ConsoleLog a] = (Stuck, [ConsoleLog a, PauseIfDebug True], None))
  \<or> (\<exists>fl. ext_parse E a = Some fl \<and> (debug fl \<longrightarrow> ext_confirmed E) \<and>
        ctx_at_setup E a = Some (new_ctx fl) \<and>
        ext_setup E (new_ctx fl) = Throws \<and>
        try_block E a [ConsoleLog a] = (Thrown, to_setup a fl, None))
  \<or> (\<exists>fl. ext_parse E a = Some fl \<and> (debug fl \<longrightarrow> ext_confirmed E) \<and>
        ctx_at_setup E a = Some (new_ctx fl) \<and>
        ext_setup E (new_ctx fl) = Hangs \<and>
        try_block E a [ConsoleLog a] = (Stuck, to_setup a fl, None))
  \<or> (\<exists>fl c l. ext_parse E a = Some fl \<and> (debug fl \<longrightarrow> ext_confirmed E) \<and>
        ctx_at_setup E a = Some (new_ctx fl) \<and>
        ext_setup E (new_ctx fl) = Returns (c, l) \<and>
        ext_determineAuthId E (after_setup fl c l) = Throws \<and>
        try_block E a [ConsoleLog a] = (Thrown, to_auth a fl, None))
  \<or> (\<exists>fl c l. ext_parse E a = Some fl \<and> (debug fl \<longrightarrow> ext_confirmed E) \<and>
        ctx_at_setup E a = Some (new_ctx fl) \<and>
        ext_setup E (new_ctx fl) = Returns (c, l) \<and>
        ext_determineAuthId E (after_setup fl c l) = Hangs \<and>
        try_block E a [ConsoleLog a] = (Stuck, to_auth a fl, None))
  \<or> (\<exists>fl c l aid. ext_parse E a = Some fl \<and> (debug fl \<longrightarrow> ext_confirmed E) \<and>
        ctx_at_setup E a = Some (new_ctx fl) \<and>
        ext_setup E (new_ctx fl) = Returns (c, l) \<and>
        ext_determineAuthId E (after_setup fl c l) = Returns aid \<and>
        ext_plan E (after_setup fl c l) = Throws \<and>
        try_block E a [ConsoleLog a] = (Thrown, to_plan a fl c aid, aid))
  \<or> (\<exists>fl c l aid. ext_parse E a = Some fl \<and> (debug fl \<longrightarrow> ext_confirmed E) \<and>
        ctx_at_setup E a = Some (new_ctx fl) \<and>
        ext_setup E (new_ctx fl) = Returns (c, l) \<and>
        ext_determineAuthId E (after_setup fl c l) = Returns aid \<and>
        ext_plan E (after_setup fl c l) = Hangs \<and>
        try_block E a [ConsoleLog a] = (Stuck, to_plan a fl c aid, aid))
  \<or> (\<exists>fl c l aid ts. ext_parse E a = Some fl \<and> (debug fl \<longrightarrow> ext_confirmed E) \<and>
        ctx_at_setup E a = Some (new_ctx fl) \<and>
        ext_setup E (new_ctx fl) = Returns (c, l) \<and>
        ext_determineAuthId E (after_setup fl c l) = Returns aid \<and>
        ext_plan E (after_setup fl c l) = Returns ts \<and>
        ext_execute E (after_plan fl c l ts) = Throws \<and>
        try_block E a [ConsoleLog a] = (Thrown, to_execute a fl c aid, aid))
  \<or> (\<exists>fl c l aid ts. ext_parse E a = Some fl \<and> (debug fl \<longrightarrow> ext_confirmed E) \<and>
        ctx_at_setup E a = Some (new_ctx fl) \<and>
        ext_setup E (new_ctx fl) = Returns (c, l) \<and>
        ext_determineAuthId E (after_setup fl c l) = Returns aid \<and>
        ext_plan E (after_setup fl c l) = Returns ts \<and>
        ext_execute E (after_plan fl c l ts) = Hangs \<and>
        try_block E a [ConsoleLog a] = (Stuck, to_execute a fl c aid, aid))
  \<or> (\<exists>fl c l aid ts rs. ext_parse E a = Some fl \<and> (debug fl \<longrightarrow> ext_confirmed E) \<and>
        ctx_at_setup E a = Some (new_ctx fl) \<and>
        ext_setup E (new_ctx fl) = Returns (c, l) \<and>
        ext_determineAuthId E (after_setup fl c l) = Returns aid \<and>
        ext_plan E (after_setup fl c l) = Returns ts \<and>
        ext_execute E (after_plan fl c l ts) = Returns rs \<and>
        sound fl \<and> spawn_throws (ext_host E) success \<and>
        try_block E a [ConsoleLog a] =
          (Thrown, to_sound a fl c aid rs @ [SoundStart success, SoundRejected success], aid))
  \<or> (\<exists>fl c l aid ts rs. ext_parse E a = Some fl \<and> (debug fl \<longrightarrow> ext_confirmed E) \<and>
        ctx_at_setup E a = Some (new_ctx fl) \<and>
        ext_setup E (new_ctx fl) = Returns (c, l) \<and>
        ext_determineAuthId E (after_setup fl c l) = Returns aid \<and>
        ext_plan E (after_setup fl c l) = Returns ts \<and>
        ext_execute E (after_plan fl c l ts) = Returns rs \<and>
        \<not> (sound fl \<and> spawn_throws (ext_host E) success) \<and>
        \<not> watch fl \<and>
        try_block E a [ConsoleLog a] =
          (Exit 0, to_watch E a fl c aid rs @ success_tail fl c aid, aid))
  \<or> (\<exists>fl c l aid ts rs. ext_parse E a = Some fl \<and> (debug fl \<longrightarrow> ext_confirmed E) \<and>
        ctx_at_setup E a = Some (new_ctx fl) \<and>
        ext_setup E (new_ctx fl) = Returns (c, l) \<and>
        ext_determineAuthId E (after_setup fl c l) = Returns aid \<and>
        ext_plan E (after_setup fl c l) = Returns ts \<and>
        ext_execute E (after_plan fl c l ts) = Returns rs \<and>
        \<not> (sound fl \<and> spawn_throws (ext_host E) success) \<and>
        watch fl \<and> ext_watch E (after_execute fl c l ts rs) = Throws \<and>
        try_block E a [ConsoleLog a] =
          (Thrown, to_watch E a fl c aid rs @ [PhaseStart Watch], aid))
  \<or> (\<exists>fl c l aid ts rs. ext_parse E a = Some fl \<and> (debug fl \<longrightarrow> ext_confirmed E) \<and>
        ctx_at_setup E a = Some (new_ctx fl) \<and>
        ext_setup E (new_ctx fl) = Returns (c, l) \<and>
        ext_determineAuthId E (after_setup fl c l) = Returns aid \<and>
        ext_plan E (after_setup fl c l) = Returns ts \<and>
        ext_execute E (after_plan fl c l ts) = Returns rs \<and>
        \<not> (sound fl \<and> spawn_throws (ext_host E) success) \<and>
        watch fl \<and> ext_watch E (after_execute fl c l ts rs) = Hangs \<and>
        try_block E a [ConsoleLog a] =
          (Stuck, to_watch E a fl c aid rs @ [PhaseStart Watch], aid))
  \<or> (\<exists>fl c l aid ts rs. ext_parse E a = Some fl \<and> (debug fl \<longrightarrow> ext_confirmed E) \<and>
        ctx_at_setup E a = Some (new_ctx fl) \<and>
        ext_setup E (new_ctx fl) = Returns (c, l) \<and>
        ext_determineAuthId E (after_setup fl c l) = Returns aid \<and>
        ext_plan E (after_setup fl c l) = Returns ts \<and>
        ext_execute E (after_plan fl c l ts) = Returns rs \<and>
        \<not> (sound fl \<and> spawn_throws (ext_host E) success) \<and>
        watch fl \<and> ext_watch E (after_execute fl c l ts rs) = Returns () \<and>
        try_block E a [ConsoleLog a] =
          (Exit 0, to_watch E a fl c aid rs @ [PhaseStart Watch, PhaseEnd Watch]
             @ success_tail fl c aid, aid))"
  by (auto simp: try_block_def try_statements_def stmt_defs stage_defs new_ctx_def
      ctx_at_setup_def split: option.split outcome.split prod.split)

text \<open>
  The \<^verbatim>\<open>catch\<close> block ends the process with status 1 unless the promise of the failure
  sound rejects.
\<close>

lemma catch_block_eq:
  "catch_block E a tr aid =
     (if failure_sound_rejects E a then Thrown else Exit 1, tr @ error_tail E a aid)"
  by (simp add: catch_block_def error_tail_def failure_sound_rejects_def playSound_settles
      Let_def)

lemma run_of_try:
  assumes "try_block E a [ConsoleLog a] = (r, tr, aid)"
  shows "caught E a = (r = Thrown)"
    and "events E a = (if r = Thrown then tr @ error_tail E a aid else tr)"
    and "ending E a =
      (if r = Thrown then (if failure_sound_rejects E a then Thrown else Exit 1) else r)"
  using assms
  by (simp_all add: caught_def events_def ending_def action_def catch_block_eq
      split: signal.splits)

lemmas outcome_defs = setup_outcome_def ctx_at_auth_def auth_outcome_def ctx_at_plan_def
  plan_outcome_def ctx_at_execute_def execute_outcome_def ctx_at_watch_def watch_outcome_def
  flag_set_def success_sound_rejects_def failure_sound_rejects_def watch_throws_def
  error_raised_def

lemmas read_defs = run_of_try stage_defs error_tail_def is_event_def outcome_defs

text \<open>The outer guard catches an error exactly when one is thrown inside the block.\<close>

lemma caught_iff_error_raised: "caught E a = error_raised E a"
  using try_block_shape[of E a]
  by (elim disjE exE conjE) (simp_all add: read_defs)

text \<open>The telemetry events of each stage.\<close>

lemma no_track_before_auth:
  "TrackEvent aid n p \<notin> set (to_setup a fl)"
  "TrackEvent aid n p \<notin> set (to_auth a fl)"
  by (simp_all add: stage_defs)

lemma track_in_stage:
  "TrackEvent aid n p \<in> set (to_plan a fl c aid') \<Longrightarrow>
     n = ''cmd.run.start'' \<and> p = Snapshot (Some c) fl"
  "TrackEvent aid n p \<in> set (to_execute a fl c aid') \<Longrightarrow>
     n = ''cmd.run.start'' \<and> p = Snapshot (Some c) fl"
  "TrackEvent aid n p \<in> set (to_sound a fl c aid' rs) \<Longrightarrow>
     n = ''cmd.run.start'' \<and> p = Snapshot (Some c) fl"
  "TrackEvent aid n p \<in> set (to_watch E a fl c aid' rs) \<Longrightarrow>
     n = ''cmd.run.start'' \<and> p = Snapshot (Some c) fl"
  "TrackEvent aid n p \<in> set (success_tail fl c aid') \<Longrightarrow>
     n = ''cmd.run.success'' \<and> p = Snapshot (Some c) fl"
  "TrackEvent aid n p \<in> set (error_tail E a aid') \<Longrightarrow>
     n = ''cmd.run.error'' \<and> p = EmptyPayload"
  by (auto simp: stage_defs error_tail_def split: if_splits)

subsection \<open>Sample runs\<close>

lemma sample_parse:
  "switch_schema sound_watch_args = Some sample_flags"
  "switch_schema bad_args = None"
  "truthy (property bad_args ''sound'')"
  "truthy (property sound_watch_args ''sound'')"
  "watch sample_flags" "sound sample_flags" "\<not> debug sample_flags"
  "\<not> watch quiet_flags" "\<not> sound quiet_flags" "\<not> debug quiet_flags"
  by (simp_all add: switch_schema_def is_switch_def property_def sound_watch_args_def
      bad_args_def sample_flags_def quiet_flags_def)

lemma sample_hosts:
  "settle_time linux_host ty = 120"
  "\<not> spawn_throws linux_host ty"
  "spawn_throws exhausted_host ty"
  by (simp_all add: settle_time_def spawn_throws_def linux_host_def exhausted_host_def)

lemma good_env_calls:
  "ext_parse good_env = switch_schema"
  "ext_confirmed good_env"
  "ext_setup good_env x = Returns (''i18n.json'', ''engine'')"
  "ext_determineAuthId good_env x = Returns (Some ''user@example.com'')"
  "ext_plan good_env x = Returns [''en:fr'']"
  "ext_execute good_env x = Returns [(''en:fr'', ''ok'')]"
  "ext_watch good_env x = Returns ()"
  "ext_host good_env = linux_host"
  by (simp_all add: good_env_def)

lemma watch_throws_env_calls:
  "ext_parse watch_throws_env = switch_schema"
  "ext_confirmed watch_throws_env"
  "ext_setup watch_throws_env x = Returns (''i18n.json'', ''engine'')"
  "ext_determineAuthId watch_throws_env x = Returns (Some ''user@example.com'')"
  "ext_plan watch_throws_env x = Returns [''en:fr'']"
  "ext_execute watch_throws_env x = Returns [(''en:fr'', ''ok'')]"
  "ext_watch watch_throws_env x = Throws"
  "ext_host watch_throws_env = linux_host"
  by (simp_all add: watch_throws_env_def good_env_def)



lemma plan_throws_env_calls:
  "ext_parse plan_throws_env = switch_schema"
  "ext_confirmed plan_throws_env"
  "ext_setup plan_throws_env x = Returns (''i18n.json'', ''engine'')"
  "ext_determineAuthId plan_throws_env x = Returns (Some ''user@example.com'')"
  "ext_plan plan_throws_env x = Throws"
  "ext_host plan_throws_env = linux_host"
  by (simp_all add: plan_throws_env_def good_env_def)

lemma execute_throws_env_calls:
  "ext_parse execute_throws_env = switch_schema"
  "ext_confirmed execute_throws_env"
  "ext_setup execute_throws_env x = Returns (''i18n.json'', ''engine'')"
  "ext_determineAuthId execute_throws_env x = Returns (Some ''user@example.com'')"
  "ext_plan execute_throws_env x = Returns [''en:fr'']"
  "ext_execute execute_throws_env x = Throws"
  "ext_host execute_throws_env = linux_host"
  by (simp_all add: execute_throws_env_def good_env_def)

lemma setup_throws_env_calls:
  "ext_parse setup_throws_env x = Some quiet_flags"
  "ext_confirmed setup_throws_env"
  "ext_setup setup_throws_env y = Throws"
  "ext_host setup_throws_env = linux_host"
  by (simp_all add: setup_throws_env_def good_env_def)

lemma no_spawn_env_calls:
  "ext_parse no_spawn_env = switch_schema"
  "ext_confirmed no_spawn_env"
  "ext_setup no_spawn_env x = Returns (''i18n.json'', ''engine'')"
  "ext_determineAuthId no_spawn_env x = Returns (Some ''user@example.com'')"
  "ext_plan no_spawn_env x = Returns [''en:fr'']"
  "ext_execute no_spawn_env x = Returns [(''en:fr'', ''ok'')]"
  "ext_watch no_spawn_env x = Returns ()"
  "ext_host no_spawn_env = exhausted_host"
  by (simp_all add: no_spawn_env_def good_env_def)

lemmas sample_facts = sample_parse sample_hosts

lemmas chain_defs = ctx_at_setup_def outcome_defs

text \<open>Every collaborator returns and watch returns.\<close>

lemma good_run:
  "events good_env sound_watch_args =
     [ConsoleLog sound_watch_args, PauseIfDebug False, RenderClear, RenderSpacer, RenderBanner,
      RenderHero, RenderSpacer, PhaseStart Setup, PhaseEnd Setup, DetermineAuthId,
      TrackEvent (Some ''user@example.com'') ''cmd.run.start''
        (Snapshot (Some ''i18n.json'') sample_flags),
      RenderSpacer, PhaseStart Plan, PhaseEnd Plan, RenderSpacer, PhaseStart Execute,
      PhaseEnd Execute, RenderSpacer, RenderSummary [(''en:fr'', ''ok'')], RenderSpacer,
      SoundStart success, SoundSettled success 120, PhaseStart Watch, PhaseEnd Watch,
      TrackEvent (Some ''user@example.com'') ''cmd.run.success''
        (Snapshot (Some ''i18n.json'') sample_flags),
      ExitGracefully]"
  "ending good_env sound_watch_args = Exit 0"
  using try_block_shape[of good_env sound_watch_args]
  by (simp_all add: good_env_calls sample_facts read_defs)

lemma good_outcomes:
  "setup_outcome good_env sound_watch_args = Some (Returns (''i18n.json'', ''engine''))"
  "auth_outcome good_env sound_watch_args = Some (Returns (Some ''user@example.com''))"
  "plan_outcome good_env sound_watch_args = Some (Returns [''en:fr''])"
  "execute_outcome good_env sound_watch_args = Some (Returns [(''en:fr'', ''ok'')])"
  "watch_outcome good_env sound_watch_args = Some (Returns ())"
  "flag_set good_env sound_watch_args watch" "flag_set good_env sound_watch_args sound"
  "\<not> success_sound_rejects good_env sound_watch_args"
  "\<not> error_raised good_env sound_watch_args"
  by (simp_all add: chain_defs good_env_calls sample_facts)

text \<open>Watch throws after everything else has succeeded.\<close>

lemma watch_throws_run:
  "events watch_throws_env sound_watch_args =
     [ConsoleLog sound_watch_args, PauseIfDebug False, RenderClear, RenderSpacer, RenderBanner,
      RenderHero, RenderSpacer, PhaseStart Setup, PhaseEnd Setup, DetermineAuthId,
      TrackEvent (Some ''user@example.com'') ''cmd.run.start''
        (Snapshot (Some ''i18n.json'') sample_flags),
      RenderSpacer, PhaseStart Plan, PhaseEnd Plan, RenderSpacer, PhaseStart Execute,
      PhaseEnd Execute, RenderSpacer, RenderSummary [(''en:fr'', ''ok'')], RenderSpacer,
      SoundStart success, SoundSettled success 120, PhaseStart Watch,
      TrackEvent (Some ''user@example.com'') ''cmd.run.error'' EmptyPayload,
      SoundStart failure, SoundSettled failure 120, ProcessExit 1]"
  "ending watch_throws_env sound_watch_args = Exit 1"
  "caught watch_throws_env sound_watch_args"
  using try_block_shape[of watch_throws_env sound_watch_args]
  by (simp_all add: watch_throws_env_calls sample_facts read_defs or_unknown_def)

lemma watch_throws_outcomes:
  "setup_outcome watch_throws_env sound_watch_args = Some (Returns (''i18n.json'', ''engine''))"
  "plan_outcome watch_throws_env sound_watch_args = Some (Returns [''en:fr''])"
  "execute_outcome watch_throws_env sound_watch_args = Some (Returns [(''en:fr'', ''ok'')])"
  "watch_outcome watch_throws_env sound_watch_args = Some Throws"
  "flag_set watch_throws_env sound_watch_args watch"
  "flag_set watch_throws_env sound_watch_args sound"
  "\<not> success_sound_rejects watch_throws_env sound_watch_args"
  "\<not> failure_sound_rejects watch_throws_env sound_watch_args"
  "watch_throws watch_throws_env sound_watch_args"
  "error_raised watch_throws_env sound_watch_args"
  by (simp_all add: chain_defs watch_throws_env_calls sample_facts)





text \<open>Plan throws; execute throws.\<close>

lemma plan_throws_run:
  "events plan_throws_env sound_watch_args =
     [ConsoleLog sound_watch_args, PauseIfDebug False, RenderClear, RenderSpacer, RenderBanner,
      RenderHero, RenderSpacer, PhaseStart Setup, PhaseEnd Setup, DetermineAuthId,
      TrackEvent (Some ''user@example.com'') ''cmd.run.start''
        (Snapshot (Some ''i18n.json'') sample_flags),
      RenderSpacer, PhaseStart Plan,
      TrackEvent (Some ''user@example.com'') ''cmd.run.error'' EmptyPayload,
      SoundStart failure, SoundSettled failure 120, ProcessExit 1]"
  "ending plan_throws_env sound_watch_args = Exit 1"
  using try_block_shape[of plan_throws_env sound_watch_args]
  by (simp_all add: plan_throws_env_calls sample_facts read_defs or_unknown_def)


lemma execute_throws_run:
  "events execute_throws_env sound_watch_args =
     [ConsoleLog sound_watch_args, PauseIfDebug False, RenderClear, RenderSpacer, RenderBanner,
      RenderHero, RenderSpacer, PhaseStart Setup, PhaseEnd Setup, DetermineAuthId,
      TrackEvent (Some ''user@example.com'') ''cmd.run.start''
        (Snapshot (Some ''i18n.json'') sample_flags),
      RenderSpacer, PhaseStart Plan, PhaseEnd Plan, RenderSpacer, PhaseStart Execute,
      TrackEvent (Some ''user@example.com'') ''cmd.run.error'' EmptyPayload,
      SoundStart failure, SoundSettled failure 120, ProcessExit 1]"
  "ending execute_throws_env sound_watch_args = Exit 1"
  using try_block_shape[of execute_throws_env sound_watch_args]
  by (simp_all add: execute_throws_env_calls sample_facts read_defs or_unknown_def)

lemma execute_throws_outcomes:
  "plan_outcome execute_throws_env sound_watch_args = Some (Returns [''en:fr''])"
  "execute_outcome execute_throws_env sound_watch_args = Some Throws"
  "flag_set execute_throws_env sound_watch_args watch"
  "flag_set execute_throws_env sound_watch_args sound"
  "\<not> success_sound_rejects execute_throws_env sound_watch_args"
  "\<not> watch_throws execute_throws_env sound_watch_args"
  "\<not> failure_sound_rejects execute_throws_env sound_watch_args"
  "error_raised execute_throws_env sound_watch_args"
  by (simp_all add: chain_defs execute_throws_env_calls sample_facts)

text \<open>Setup throws under a schema that leaves the validated \<^verbatim>\<open>sound\<close> off.\<close>

lemma setup_throws_run:
  "events setup_throws_env sound_watch_args =
     [ConsoleLog sound_watch_args, PauseIfDebug False, RenderClear, RenderSpacer, RenderBanner,
      RenderHero, RenderSpacer, PhaseStart Setup,
      TrackEvent (Some ''unknown'') ''cmd.run.error'' EmptyPayload,
      SoundStart failure, SoundSettled failure 120, ProcessExit 1]"
  "ending setup_throws_env sound_watch_args = Exit 1"
  using try_block_shape[of setup_throws_env sound_watch_args]
  by (simp_all add: setup_throws_env_calls sample_facts read_defs or_unknown_def)

lemma setup_throws_outcomes:
  "setup_outcome setup_throws_env sound_watch_args = Some Throws"
  "\<not> flag_set setup_throws_env sound_watch_args sound"
  "error_raised setup_throws_env sound_watch_args"
  by (simp_all add: chain_defs setup_throws_env_calls sample_facts)

text \<open>The schema rejects the arguments.\<close>

lemma bad_args_run:
  "events good_env bad_args =
     [ConsoleLog bad_args, TrackEvent (Some ''unknown'') ''cmd.run.error'' EmptyPayload,
      SoundStart failure, SoundSettled failure 120, ProcessExit 1]"
  "ending good_env bad_args = Exit 1"
  using try_block_shape[of good_env bad_args]
  by (simp_all add: good_env_calls sample_facts read_defs or_unknown_def)





subsection \<open>Success telemetry and the watch phase\<close>




subsection \<open>Resolving the authId\<close>




subsection \<open>Which sound is played\<close>

text \<open>
  C3. The success sound is played if and only if the sound flag is set and the execute
  phase completed without throwing; the failure sound is played if and only if the sound
  flag is set and an error was caught by the outer guard, which happens exactly when an
  error is thrown inside the \<^verbatim>\<open>try\<close> block. A sound is played when \<^verbatim>\<open>playSound\<close> is
  called for it. On the success path the handler reads the flag from the validated flags
  (\<^verbatim>\<open>ctx.flags.sound\<close>), in the \<^verbatim>\<open>catch\<close> block from the raw arguments (\<^verbatim>\<open>args.sound\<close>);
  whenever the schema hands the switch through unchanged, the two readings agree and the
  raw argument decides both sounds.
\<close>

theorem sound_played_iff:
  "(SoundStart success \<in> set (events E a) \<longleftrightarrow>
      flag_set E a sound \<and> returned (execute_outcome E a))
   \<and> (SoundStart failure \<in> set (events E a) \<longleftrightarrow>
        truthy (property a ''sound'') \<and> caught E a)
   \<and> (caught E a \<longleftrightarrow> error_raised E a)
   \<and> ((\<forall>fl. ext_parse E a = Some fl \<longrightarrow> sound fl = truthy (property a ''sound'')) \<longrightarrow>
        (SoundStart success \<in> set (events E a) \<longleftrightarrow>
          truthy (property a ''sound'') \<and> returned (execute_outcome E a)))"
  using try_block_shape[of E a]
  by (elim disjE exE conjE) (simp_all add: read_defs)

theorem sound_played_iff_witness:
  "flag_set watch_throws_env sound_watch_args sound
   \<and> truthy (property sound_watch_args ''sound'')
   \<and> returned (execute_outcome watch_throws_env sound_watch_args)
   \<and> error_raised watch_throws_env sound_watch_args
   \<and> SoundStart success \<in> set (events watch_throws_env sound_watch_args)
   \<and> SoundStart failure \<in> set (events watch_throws_env sound_watch_args)
   \<and> flag_set execute_throws_env sound_watch_args sound
   \<and> threw (execute_outcome execute_throws_env sound_watch_args)
   \<and> error_raised execute_throws_env sound_watch_args
   \<and> SoundStart success \<notin> set (events execute_throws_env sound_watch_args)
   \<and> SoundStart failure \<in> set (events execute_throws_env sound_watch_args)
   \<and> flag_set good_env sound_watch_args sound
   \<and> returned (execute_outcome good_env sound_watch_args)
   \<and> \<not> error_raised good_env sound_watch_args
   \<and> SoundStart success \<in> set (events good_env sound_watch_args)
   \<and> SoundStart failure \<notin> set (events good_env sound_watch_args)"
  using sound_played_iff[of watch_throws_env sound_watch_args]
    sound_played_iff[of execute_throws_env sound_watch_args]
    sound_played_iff[of good_env sound_watch_args]
  by (simp add: sample_parse watch_throws_outcomes execute_throws_outcomes good_outcomes)

subsection \<open>Telemetry events\<close>

text \<open>
  C4, as amended. Every telemetry event the handler emits is named \<^verbatim>\<open>cmd.run.start\<close>,
  \<^verbatim>\<open>cmd.run.success\<close> or \<^verbatim>\<open>cmd.run.error\<close>. The first two carry the payload
  \<^verbatim>\<open>{config, flags}\<close>, with the validated flags of the run, and \<^verbatim>\<open>cmd.run.error\<close> carries
  the empty payload.
\<close>

theorem telemetry_event_names:
  assumes "TrackEvent aid n p \<in> set (events E a)"
  shows "(n = ''cmd.run.start'' \<or> n = ''cmd.run.success'')
           \<and> (\<exists>c fl. ext_parse E a = Some fl \<and> p = Snapshot c fl)
         \<or> n = ''cmd.run.error'' \<and> p = EmptyPayload"
  using try_block_shape[of E a] assms
  by (elim disjE exE conjE) (auto simp: run_of_try no_track_before_auth dest!: track_in_stage)

theorem telemetry_event_names_witness:
  "TrackEvent (Some ''user@example.com'') ''cmd.run.error'' EmptyPayload
     \<in> set (events watch_throws_env sound_watch_args)
   \<and> TrackEvent (Some ''user@example.com'') ''cmd.run.start''
       (Snapshot (Some ''i18n.json'') sample_flags)
     \<in> set (events watch_throws_env sound_watch_args)
   \<and> ext_parse watch_throws_env sound_watch_args = Some sample_flags"
proof -
  have e: "TrackEvent (Some ''user@example.com'') ''cmd.run.error'' EmptyPayload
     \<in> set (events watch_throws_env sound_watch_args)"
    by (simp add: watch_throws_run)
  have s: "TrackEvent (Some ''user@example.com'') ''cmd.run.start''
       (Snapshot (Some ''i18n.json'') sample_flags)
     \<in> set (events watch_throws_env sound_watch_args)"
    by (simp add: watch_throws_run)
  from telemetry_event_names[OF e] telemetry_event_names[OF s] e s show ?thesis
    by simp
qed

text \<open>
  The claim as stated fails on the names: the sample run emits an event named
  \<^verbatim>\<open>cmd.run.start\<close>, which is none of \<^verbatim>\<open>run.start\<close>, \<^verbatim>\<open>run.success\<close> and
  \<^verbatim>\<open>run.error\<close>.
\<close>

theorem telemetry_event_names_counterexample:
  "TrackEvent (Some ''user@example.com'') ''cmd.run.start''
       (Snapshot (Some ''i18n.json'') sample_flags)
     \<in> set (events good_env sound_watch_args)
   \<and> ''cmd.run.start'' \<notin> {''run.start'', ''run.success'', ''run.error''}"
  by (simp add: good_run)

subsection \<open>Rejected flags\<close>




subsection \<open>Entering the watch phase\<close>




subsection \<open>The promise of the notifier\<close>




subsection \<open>The Windows command\<close>

lemma win32_primary_undefined: "win32_primary (soundFiles h ty) = None"
  by (simp add: win32_primary_def js_index_def soundFiles_single)

lemma win32_fallback_defined:
  "win32_fallback (soundFiles h ty) =
     Some (path_join h (path_join h (dirname h) ''../assets'') (type_name ty @ ''.mp3''))"
  by (simp add: win32_fallback_def js_index_def soundFiles_def Let_def)

text \<open>
  C8. On Windows the candidate list has the single entry \<^verbatim>\<open>soundFiles[0]\<close>, and the
  command hands \<^verbatim>\<open>soundFiles[1]\<close> to the managed sound player: the index is out of
  bounds, the value is \<^verbatim>\<open>undefined\<close>, and the command names the file \<^verbatim>\<open>undefined\<close>.
  Only the fallback references the candidate. Evaluated for the success sound on the
  sample Windows host.
\<close>

theorem win32_command_primary_undefined:
  "soundFiles windows_host success = [''C:/cli/build/../assets/success.mp3'']
   \<and> win32_primary (soundFiles windows_host success) = None
   \<and> win32_fallback (soundFiles windows_host success)
       = Some ''C:/cli/build/../assets/success.mp3''
   \<and> command windows_host success =
       ''powershell -c '' @ dq @ ''try { (New-Object Media.SoundPlayer '' @ sq
         @ ''undefined'' @ sq @ '').PlaySync() } catch { Start-Process -FilePath '' @ sq
         @ ''C:/cli/build/../assets/success.mp3'' @ sq @ '' -WindowStyle Hidden -Wait }'' @ dq"
  by (simp add: command_def win32_command_def win32_primary_def win32_fallback_def
      js_index_def template_str_def soundFiles_def windows_host_def posix_join_def Let_def)

subsection \<open>The summary\<close>




subsection \<open>The error path reads the raw arguments\<close>

text \<open>
  C10. On the error path the failure sound is decided by the raw \<^verbatim>\<open>args.sound\<close>, not by
  the validated flags: after an error thrown inside the \<^verbatim>\<open>try\<close> block, \<^verbatim>\<open>playSound\<close> is
  called for the failure sound exactly when \<^verbatim>\<open>args.sound\<close> is truthy. In particular, when
  validation of the flags itself throws and no validated flags exist, the failure sound
  is still played whenever \<^verbatim>\<open>args.sound\<close> is truthy. On that path the error event
  (\<^verbatim>\<open>cmd.run.error\<close>, with \<^verbatim>\<open>"unknown"\<close>) is emitted before the sound is awaited, and
  \<^verbatim>\<open>process.exit(1)\<close> happens only after the promise of the sound has settled: when the
  promise is fulfilled the events are the log of the arguments, the error event, the
  start of the sound, the settling of its promise and \<^verbatim>\<open>process.exit(1)\<close>, in this order;
  when the promise is rejected, \<^verbatim>\<open>process.exit\<close> does not happen at all.
\<close>

theorem failure_sound_from_raw_args:
  "(error_raised E a \<longrightarrow>
      (SoundStart failure \<in> set (events E a) \<longleftrightarrow> truthy (property a ''sound'')))
   \<and> (ext_parse E a = None \<and> truthy (property a ''sound'') \<longrightarrow>
        SoundStart failure \<in> set (events E a)
        \<and> occurs_before (is_track ''cmd.run.error'') (is_event (SoundStart failure)) (events E a)
        \<and> occurs_before (is_event (SoundStart failure)) (is_settled failure) (events E a)
        \<and> \<not> occurs_before is_exit (is_settled failure) (events E a)
        \<and> (list_ex is_exit (events E a) \<longrightarrow>
             occurs_before (is_settled failure) is_exit (events E a))
        \<and> (\<not> spawn_throws (ext_host E) failure \<longrightarrow>
             events E a =
               [ConsoleLog a, TrackEvent (Some ''unknown'') ''cmd.run.error'' EmptyPayload,
                SoundStart failure, SoundSettled failure (settle_time (ext_host E) failure),
                ProcessExit 1]
             \<and> ending E a = Exit 1)
        \<and> (spawn_throws (ext_host E) failure \<longrightarrow>
             events E a =
               [ConsoleLog a, TrackEvent (Some ''unknown'') ''cmd.run.error'' EmptyPayload,
                SoundStart failure, SoundRejected failure]
             \<and> ending E a = Thrown))"
  using try_block_shape[of E a]
  by (elim disjE exE conjE) (auto simp: read_defs or_unknown_def)

theorem failure_sound_from_raw_args_witness:
  "ext_parse good_env bad_args = None \<and> truthy (property bad_args ''sound'')
   \<and> \<not> spawn_throws (ext_host good_env) failure
   \<and> events good_env bad_args =
      [ConsoleLog bad_args, TrackEvent (Some ''unknown'') ''cmd.run.error'' EmptyPayload,
       SoundStart failure, SoundSettled failure 120, ProcessExit 1]
   \<and> ending good_env bad_args = Exit 1
   \<and> ext_parse no_spawn_env bad_args = None
   \<and> spawn_throws (ext_host no_spawn_env) failure
   \<and> events no_spawn_env bad_args =
      [ConsoleLog bad_args, TrackEvent (Some ''unknown'') ''cmd.run.error'' EmptyPayload,
       SoundStart failure, SoundRejected failure]
   \<and> ending no_spawn_env bad_args = Thrown
   \<and> error_raised setup_throws_env sound_watch_args
   \<and> \<not> flag_set setup_throws_env sound_watch_args sound
   \<and> truthy (property sound_watch_args ''sound'')
   \<and> SoundStart failure \<in> set (events setup_throws_env sound_watch_args)"
proof -
  have g: "ext_parse good_env bad_args = None" "truthy (property bad_args ''sound'')"
    "\<not> spawn_throws (ext_host good_env) failure"
    by (simp_all add: good_env_calls sample_facts)
  have n: "ext_parse no_spawn_env bad_args = None"
    "spawn_throws (ext_host no_spawn_env) failure"
    by (simp_all add: no_spawn_env_calls sample_facts)
  have q: "error_raised setup_throws_env sound_watch_args"
    "\<not> flag_set setup_throws_env sound_watch_args sound"
    "truthy (property sound_watch_args ''sound'')"
    by (simp_all add: setup_throws_outcomes sample_parse)
  from failure_sound_from_raw_args[of good_env bad_args]
    failure_sound_from_raw_args[of no_spawn_env bad_args]
    failure_sound_from_raw_args[of setup_throws_env sound_watch_args] g n q
  show ?thesis
    by (simp add: good_env_calls sample_hosts)
qed

end
